theory Spec2Isabelle
  imports Main
begin

section \<open>FalkorDBGraph: the schema cache of the LangChain adapter\<close>

text \<open>
  The class \<open>FalkorDBGraph\<close> wraps a FalkorDB driver. Its methods are embedded as
  functions from the object's fields (a record) to an outcome: the value returned or the
  error thrown, the fields afterwards, and the calls made on the outside world (driver,
  graph handle, console) in the order they are issued.

  The driver and the platform are not part of the class. Their behaviour is a parameter
  (\<open>backend\<close>) of every method: what each driver call answers at the moment of the call.
\<close>

subsection \<open>Values\<close>

text \<open>A thrown \<open>Error\<close>; the class only ever reads its message.\<close>

datatype error = Error (message: string)

text \<open>
  A JavaScript number as far as the class meets one (a port): an integer, \<open>NaN\<close>, or any
  other value (a fraction, an infinity), which the class only stores and passes on and
  which is told apart by an identity.
\<close>

datatype number = Num int | NaN | Other nat

definition nl :: string where
  "nl = [CHR 0x0A]"

definition is_digit :: "char \<Rightarrow> bool" where
  "is_digit c = ((48::nat) \<le> of_char c \<and> of_char c \<le> (57::nat))"

definition digits_value :: "string \<Rightarrow> int" where
  "digits_value s = foldl (\<lambda>a c. 10 * a + (of_char c - 48)) 0 s"

subsection \<open>Objects used as dictionaries\<close>

text \<open>
  \<open>nodeProps\<close> and \<open>relProps\<close> are plain JavaScript objects. An object is kept as the list
  of its own entries in the order \<open>Object.entries\<close> enumerates them: keys that are array
  indices first, in ascending numeric order, then the other keys in the order they were
  created. Keys are unique; writing an existing key replaces its value in place.
\<close>

type_synonym 'v js_object = "(string \<times> 'v) list"

definition is_array_index :: "string \<Rightarrow> bool" where
  "is_array_index k =
     (k \<noteq> [] \<and> list_all is_digit k \<and> (if hd k = CHR ''0'' then k = ''0'' else True)
      \<and> digits_value k < 4294967295)"

fun insert_index :: "string \<Rightarrow> 'v \<Rightarrow> 'v js_object \<Rightarrow> 'v js_object" where
  "insert_index k v [] = [(k, v)]"
| "insert_index k v ((k', v') # rest) =
     (if is_array_index k' \<and> digits_value k' < digits_value k
      then (k', v') # insert_index k v rest
      else (k, v) # (k', v') # rest)"

definition has_key :: "string \<Rightarrow> 'v js_object \<Rightarrow> bool" where
  "has_key k obj = (k \<in> set (map fst obj))"

definition define_property :: "string \<Rightarrow> 'v \<Rightarrow> 'v js_object \<Rightarrow> 'v js_object" where
  "define_property k v obj =
     (if has_key k obj then map (\<lambda>(k', v'). if k' = k then (k', v) else (k', v')) obj
      else if is_array_index k then insert_index k v obj
      else obj @ [(k, v)])"

definition Object_fromEntries :: "(string \<times> 'v) list \<Rightarrow> 'v js_object" where
  "Object_fromEntries es = foldl (\<lambda>obj (k, v). define_property k v obj) [] es"

definition Object_entries :: "'v js_object \<Rightarrow> (string \<times> 'v) list" where
  "Object_entries obj = obj"

text \<open>\<open>Array.prototype.join\<close> on an array of strings.\<close>

fun join :: "string \<Rightarrow> string list \<Rightarrow> string" where
  "join sep [] = []"
| "join sep [x] = x"
| "join sep (x # y # ys) = x @ sep @ join sep (y # ys)"

subsection \<open>The data model\<close>

record Relationship =
  rel_start :: string
  rel_type :: string
  rel_end :: string

record StructuredSchema =
  nodeProps :: "string list js_object"
  relProps :: "string list js_object"
  relationships :: "Relationship list"

text \<open>
  The rows of the three introspection queries, at the types the callbacks of
  \<open>refreshSchema\<close> declare for them: each row has one field \<open>output\<close>.
\<close>

record NodePropsOutput =
  np_label :: string
  np_properties :: "string list"

record RelPropsOutput =
  rp_type :: string
  rp_properties :: "string list"

record 'o Row =
  row_output :: 'o

text \<open>The reply of \<open>graph.query\<close>; its \<open>data\<close> field may be missing.\<close>

record 'o QueryReply =
  data :: "'o Row list option"

text \<open>Handles of the driver library: opaque to the class, told apart by identity.\<close>

datatype Driver = Driver nat

datatype Graph = Graph nat

record DriverOptions =
  opt_url :: "string option"
  opt_socket :: "(string \<times> number) option"
  opt_username :: "string option"
  opt_password :: "string option"

record URL =
  hostname :: string
  url_port :: string

record FalkorDBGraphConfig =
  cfg_host :: "string option"
  cfg_port :: "number option"
  cfg_graph :: "string option"
  cfg_url :: "string option"
  cfg_username :: "string option"
  cfg_password :: "string option"
  cfg_driver :: "Driver option"
  cfg_enhancedSchema :: "bool option"

text \<open>The fields of a \<open>FalkorDBGraph\<close>. \<open>driver\<close> and \<open>graph\<close> are undefined until assigned.\<close>

record FalkorDBGraph =
  driver :: "Driver option"
  graph :: "Graph option"
  schema :: string
  structuredSchema :: StructuredSchema
  enhancedSchema :: bool
  host :: string
  port :: number
  isExternalDriver :: bool

subsection \<open>The outside world\<close>

text \<open>Calls that leave the object, in the order they are issued.\<close>

datatype effect =
    Connect DriverOptions
  | DriverInfo Driver
  | DriverSelectGraph Driver string
  | DriverClose Driver
  | GraphQuery Graph string
  | ConsoleLog string
  | ConsoleWarn string

text \<open>
  What the driver library and the platform answer. \<open>graph.query\<close> is one method returning
  \<open>any\<close>; the class reads its reply at three row types, one per introspection query, so it
  appears here as three typed views of that method. \<open>number_toString\<close> is the platform's
  conversion of a number placed in a template literal.
\<close>

record backend =
  new_URL :: "string \<Rightarrow> error + URL"
  number_toString :: "number \<Rightarrow> string"
  connect :: "DriverOptions \<Rightarrow> error + Driver"
  driver_info :: "Driver \<Rightarrow> error option"
  driver_selectGraph :: "Driver \<Rightarrow> string \<Rightarrow> error + Graph"
  driver_close :: "Driver \<Rightarrow> error option"
  query_nodeProps :: "Graph \<Rightarrow> string \<Rightarrow> error + NodePropsOutput QueryReply"
  query_relProps :: "Graph \<Rightarrow> string \<Rightarrow> error + RelPropsOutput QueryReply"
  query_rels :: "Graph \<Rightarrow> string \<Rightarrow> error + Relationship QueryReply"

type_synonym 'a outcome = "(error + 'a) \<times> FalkorDBGraph \<times> effect list"

subsection \<open>Reading the cache\<close>



subsection \<open>query\<close>

text \<open>
  \<open>query\<close> refuses without a selected graph, and otherwise forwards to the graph handle,
  rewording a failure. \<open>run\<close> is the view of \<open>graph.query\<close> at the caller's row type.
\<close>

definition query ::
  "(Graph \<Rightarrow> string \<Rightarrow> error + 'r) \<Rightarrow> FalkorDBGraph \<Rightarrow> string \<Rightarrow> (error + 'r) \<times> effect list" where
  "query run this q =
     (case graph this of
        None \<Rightarrow> (Inl (Error ''No graph selected. Call selectGraph() first.''), [])
      | Some g \<Rightarrow>
          (case run g q of
             Inl e \<Rightarrow> (Inl (Error (''Query execution failed: '' @ message e)), [GraphQuery g q])
           | Inr r \<Rightarrow> (Inr r, [GraphQuery g q])))"

subsection \<open>formatSchema\<close>

definition formatSchema :: "FalkorDBGraph \<Rightarrow> string" where
  "formatSchema this =
     (let s = structuredSchema this;
          formattedNodeProps =
            join nl (map (\<lambda>(label, props). label @ '': {'' @ join '', '' props @ ''}'')
                      (Object_entries (nodeProps s)));
          formattedRelProps =
            join nl (map (\<lambda>(type, props). type @ '': {'' @ join '', '' props @ ''}'')
                      (Object_entries (relProps s)));
          formattedRelationships =
            join nl (map (\<lambda>rel. ''(:'' @ rel_start rel @ '') -[:'' @ rel_type rel
                                  @ '']-> (:'' @ rel_end rel @ '')'')
                      (relationships s))
      in join nl
           [''Node properties are the following:'',
            formattedNodeProps,
            ''Relationship properties are the following:'',
            formattedRelProps,
            ''The relationships are the following:'',
            formattedRelationships])"

subsection \<open>refreshSchema\<close>

definition nodePropertiesQuery :: string where
  "nodePropertiesQuery =
     nl @ ''        MATCH (n)''
     @ nl @ ''        WITH keys(n) as keys, labels(n) AS labels''
     @ nl @ ''        UNWIND labels AS label''
     @ nl @ ''        UNWIND keys AS key''
     @ nl @ ''        WITH label, collect(DISTINCT key) AS properties''
     @ nl @ ''        RETURN {label: label, properties: properties} AS output''
     @ nl @ ''      ''"

definition relPropertiesQuery :: string where
  "relPropertiesQuery =
     nl @ ''        MATCH ()-[r]->()''
     @ nl @ ''        WITH keys(r) as keys, type(r) AS type''
     @ nl @ ''        UNWIND keys AS key''
     @ nl @ ''        WITH type, collect(DISTINCT key) AS properties''
     @ nl @ ''        RETURN {type: type, properties: properties} AS output''
     @ nl @ ''      ''"

definition relQuery :: string where
  "relQuery =
     nl @ ''        MATCH (n)-[r]->(m)''
     @ nl @ ''        UNWIND labels(n) as src_label''
     @ nl @ ''        UNWIND labels(m) as dst_label''
     @ nl @ ''        RETURN DISTINCT {start: src_label, type: type(r), end: dst_label} AS output''
     @ nl @ ''      ''"

text \<open>\<open>.catch(() => ({ data: [] }))\<close>: a rejected query becomes a reply with no rows.\<close>

definition catch_empty :: "error + 'o QueryReply \<Rightarrow> 'o QueryReply" where
  "catch_empty r = (case r of Inl e \<Rightarrow> \<lparr>data = Some []\<rparr> | Inr reply \<Rightarrow> reply)"

text \<open>\<open>result.data || []\<close>.\<close>

definition data_or_empty :: "'o QueryReply \<Rightarrow> 'o Row list" where
  "data_or_empty reply = (case data reply of None \<Rightarrow> [] | Some rows \<Rightarrow> rows)"

definition enhanceSchemaDetails :: "FalkorDBGraph \<Rightarrow> unit outcome" where
  "enhanceSchemaDetails this =
     (Inr (), this, [ConsoleLog ''Enhanced schema details not yet implemented for FalkorDB.''])"

text \<open>
  The body of the \<open>try\<close> block. The three queries are started in source order, each with
  its own \<open>catch\<close>; \<open>Promise.all\<close> hands their replies back by position. The replies
  are read at the types the source declares for them; at these types no step of the body
  throws, and the outer \<open>catch\<close> of \<open>refreshSchema\<close> below is kept as the source has it.
\<close>

definition refreshSchema_try :: "backend \<Rightarrow> FalkorDBGraph \<Rightarrow> unit outcome" where
  "refreshSchema_try env this =
     (let (r1, t1) = query (query_nodeProps env) this nodePropertiesQuery;
          (r2, t2) = query (query_relProps env) this relPropertiesQuery;
          (r3, t3) = query (query_rels env) this relQuery;
          nodePropertiesResult = catch_empty r1;
          relationshipsPropertiesResult = catch_empty r2;
          relationshipsResult = catch_empty r3;
          nodeProperties = data_or_empty nodePropertiesResult;
          relationshipsProperties = data_or_empty relationshipsPropertiesResult;
          rels = data_or_empty relationshipsResult;
          this1 = this\<lparr>structuredSchema :=
                    \<lparr>nodeProps = Object_fromEntries
                       (map (\<lambda>el. (np_label (row_output el), np_properties (row_output el))) nodeProperties),
                     relProps = Object_fromEntries
                       (map (\<lambda>el. (rp_type (row_output el), rp_properties (row_output el)))
                          relationshipsProperties),
                     relationships = map (\<lambda>el. row_output el) rels\<rparr>\<rparr>
      in if enhancedSchema this1
         then (case enhanceSchemaDetails this1 of
                 (Inl e, this2, t4) \<Rightarrow> (Inl e, this2, t1 @ t2 @ t3 @ t4)
               | (Inr u, this2, t4) \<Rightarrow>
                   (Inr (), this2\<lparr>schema := formatSchema this2\<rparr>, t1 @ t2 @ t3 @ t4))
         else (Inr (), this1\<lparr>schema := formatSchema this1\<rparr>, t1 @ t2 @ t3))"

definition refreshSchema :: "backend \<Rightarrow> FalkorDBGraph \<Rightarrow> unit outcome" where
  "refreshSchema env this =
     (if graph this = None
      then (Inl (Error ''No graph selected. Call selectGraph() first.''), this, [])
      else (case refreshSchema_try env this of
              (Inl e, this', t) \<Rightarrow>
                (Inl (Error (''Failed to refresh schema: '' @ message e)), this', t)
            | (Inr u, this', t) \<Rightarrow> (Inr (), this', t)))"

subsection \<open>Constructor\<close>

text \<open>
  \<open>parseInt(s, 10)\<close>: leading white space, an optional sign, then the longest run of
  decimal digits; \<open>NaN\<close> when there is none. (A URL's port is empty or at most five digits,
  so the value is exact.)
\<close>

definition is_space :: "char \<Rightarrow> bool" where
  "is_space c = (of_char c \<in> {9::nat, 10, 11, 12, 13, 32})"

definition parseInt10 :: "string \<Rightarrow> number" where
  "parseInt10 s =
     (let t = dropWhile is_space s;
          neg = (t \<noteq> [] \<and> hd t = CHR ''-'');
          u = (if t \<noteq> [] \<and> (hd t = CHR ''-'' \<or> hd t = CHR ''+'') then tl t else t);
          ds = takeWhile is_digit u
      in if ds = [] then NaN
         else Num (if neg then - digits_value ds else digits_value ds))"

text \<open>
  \<open>a ?? b\<close> on an optional field. (On a configuration of the declared type no step of the
  constructor throws, so its \<open>catch\<close>, which logs and rethrows, has no branch here.)
\<close>

definition nullish :: "'a option \<Rightarrow> 'a \<Rightarrow> 'a" where
  "nullish a b = (case a of None \<Rightarrow> b | Some x \<Rightarrow> x)"

text \<open>Truthiness of an optional string: present and not empty.\<close>

definition truthy :: "string option \<Rightarrow> bool" where
  "truthy a = (case a of None \<Rightarrow> False | Some x \<Rightarrow> x \<noteq> [])"

definition emptySchema :: StructuredSchema where
  "emptySchema = \<lparr>nodeProps = [], relProps = [], relationships = []\<rparr>"

definition constructor :: "backend \<Rightarrow> FalkorDBGraphConfig \<Rightarrow> FalkorDBGraph" where
  "constructor env config =
     (let fallback = (nullish (cfg_host config) ''localhost'', nullish (cfg_port config) (Num 6379));
          (h, p) =
            (if cfg_driver config \<noteq> None then fallback
             else if truthy (cfg_url config) then
               (case new_URL env (the (cfg_url config)) of
                  Inr parsedUrl \<Rightarrow>
                    (if hostname parsedUrl \<noteq> [] then hostname parsedUrl else ''localhost'',
                     if url_port parsedUrl \<noteq> [] then parseInt10 (url_port parsedUrl) else Num 6379)
                | Inl urlError \<Rightarrow> fallback)
             else fallback)
      in \<lparr>driver = None, graph = None, schema = [], structuredSchema = emptySchema,
          enhancedSchema = nullish (cfg_enhancedSchema config) False,
          host = h, port = p,
          isExternalDriver = (cfg_driver config \<noteq> None)\<rparr>)"

subsection \<open>selectGraph, verifyConnectivity\<close>

definition selectGraph :: "backend \<Rightarrow> FalkorDBGraph \<Rightarrow> string \<Rightarrow> unit outcome" where
  "selectGraph env this graphName =
     (case driver this of
        None \<Rightarrow>
          (Inl (Error ''FalkorDB driver not initialized. Call initialize() first.''), this, [])
      | Some d \<Rightarrow>
          (case driver_selectGraph env d graphName of
             Inl e \<Rightarrow>
               (Inl (Error (''Failed to select graph '' @ [CHR 0x27] @ graphName @ [CHR 0x27]
                            @ '': '' @ message e)),
                this, [DriverSelectGraph d graphName])
           | Inr g \<Rightarrow> (Inr (), this\<lparr>graph := Some g\<rparr>, [DriverSelectGraph d graphName])))"

definition verifyConnectivity :: "backend \<Rightarrow> FalkorDBGraph \<Rightarrow> unit outcome" where
  "verifyConnectivity env this =
     (case driver this of
        None \<Rightarrow> (Inl (Error ''FalkorDB driver not initialized.''), this, [])
      | Some d \<Rightarrow>
          (case driver_info env d of
             Some e \<Rightarrow>
               (Inl (Error (''Failed to verify connectivity: '' @ message e)), this, [DriverInfo d])
           | None \<Rightarrow> (Inr (), this, [DriverInfo d])))"

subsection \<open>initialize\<close>

definition driverOptions :: "FalkorDBGraphConfig \<Rightarrow> FalkorDBGraph \<Rightarrow> DriverOptions" where
  "driverOptions config g =
     \<lparr>opt_url = (if truthy (cfg_url config) then cfg_url config else None),
      opt_socket = (if truthy (cfg_url config) then None else Some (host g, port g)),
      opt_username = (if truthy (cfg_username config) then cfg_username config else None),
      opt_password = (if truthy (cfg_password config) then cfg_password config else None)\<rparr>"

text \<open>The body of the \<open>try\<close> block of \<open>initialize\<close>, on the freshly constructed object.\<close>

definition initialize_try ::
  "backend \<Rightarrow> FalkorDBGraphConfig \<Rightarrow> FalkorDBGraph \<Rightarrow> (error + FalkorDBGraph) \<times> effect list" where
  "initialize_try env config g =
     (case (case cfg_driver config of
              Some d \<Rightarrow> (Inr d, [])
            | None \<Rightarrow> (connect env (driverOptions config g), [Connect (driverOptions config g)])) of
        (Inl e, t1) \<Rightarrow> (Inl e, t1)
      | (Inr d, t1) \<Rightarrow>
          (case verifyConnectivity env (g\<lparr>driver := Some d\<rparr>) of
             (Inl e, g2, t2) \<Rightarrow> (Inl e, t1 @ t2)
           | (Inr u, g2, t2) \<Rightarrow>
               (if truthy (cfg_graph config)
                then (case selectGraph env g2 (the (cfg_graph config)) of
                        (Inl e, g3, t3) \<Rightarrow> (Inl e, t1 @ t2 @ t3)
                      | (Inr u', g3, t3) \<Rightarrow> (Inr g3, t1 @ t2 @ t3))
                else (Inr g2, t1 @ t2))))"

definition initialize ::
  "backend \<Rightarrow> FalkorDBGraphConfig \<Rightarrow> (error + FalkorDBGraph) \<times> effect list" where
  "initialize env config =
     (let g = constructor env config
      in case initialize_try env config g of
           (Inl e, t) \<Rightarrow>
             (Inl (Error (''Failed to connect to FalkorDB at '' @ host g @ '':''
                          @ number_toString env (port g) @ '': '' @ message e)), t)
         | (Inr g', t) \<Rightarrow> (Inr g', t))"

subsection \<open>close\<close>

definition close_try :: "backend \<Rightarrow> FalkorDBGraph \<Rightarrow> unit outcome" where
  "close_try env this =
     (case driver this of
        None \<Rightarrow> (Inr (), this, [])
      | Some d \<Rightarrow>
          (if \<not> isExternalDriver this
           then (case driver_close env d of
                   Some e \<Rightarrow> (Inl e, this, [DriverClose d])
                 | None \<Rightarrow> (Inr (), this, [DriverClose d]))
           else (Inr (), this, [])))"

definition close :: "backend \<Rightarrow> FalkorDBGraph \<Rightarrow> unit outcome" where
  "close env this =
     (case close_try env this of
        (Inl e, this', t) \<Rightarrow>
          (Inr (), this',
           t @ [ConsoleWarn (''Warning: Error closing FalkorDB connection: '' @ message e)])
      | (Inr u, this', t) \<Rightarrow> (Inr (), this', t))"

definition isConnected :: "FalkorDBGraph \<Rightarrow> bool" where
  "isConnected this = (driver this \<noteq> None)"

definition hasSelectedGraph :: "FalkorDBGraph \<Rightarrow> bool" where
  "hasSelectedGraph this = (graph this \<noteq> None)"

subsection \<open>Objects a caller can hold\<close>

text \<open>
  The objects obtainable from a configuration: built by the constructor or returned by a
  successful \<open>initialize\<close>, then taken through any sequence of \<open>selectGraph\<close>,
  \<open>refreshSchema\<close> and \<open>close\<close> calls, whatever the outside world answers and whether or
  not a call throws.
\<close>

inductive reachable :: "FalkorDBGraphConfig \<Rightarrow> FalkorDBGraph \<Rightarrow> bool" for config where
  constructed: "reachable config (constructor env config)"
| initialized: "initialize env config = (Inr this, t) \<Longrightarrow> reachable config this"
| after_selectGraph:
    "reachable config this \<Longrightarrow> selectGraph env this graphName = (r, this', t)
     \<Longrightarrow> reachable config this'"
| after_refreshSchema:
    "reachable config this \<Longrightarrow> refreshSchema env this = (r, this', t)
     \<Longrightarrow> reachable config this'"
| after_close:
    "reachable config this \<Longrightarrow> close env this = (r, this', t) \<Longrightarrow> reachable config this'"



subsection \<open>Reading an outcome\<close>

definition result :: "'a outcome \<Rightarrow> error + 'a" where
  "result out = fst out"

definition after :: "'a outcome \<Rightarrow> FalkorDBGraph" where
  "after out = fst (snd out)"

definition effects :: "'a outcome \<Rightarrow> effect list" where
  "effects out = snd (snd out)"

subsection \<open>What a refresh works from\<close>

text \<open>
  The records \<open>refreshSchema\<close> reads for each of the three dimensions once a graph is
  selected (after its \<open>catch\<close> and its \<open>|| []\<close>), and the structured schema it builds
  from them.
\<close>

definition node_records :: "backend \<Rightarrow> Graph \<Rightarrow> NodePropsOutput list" where
  "node_records env g =
     map row_output (data_or_empty (catch_empty (query_nodeProps env g nodePropertiesQuery)))"

definition relprop_records :: "backend \<Rightarrow> Graph \<Rightarrow> RelPropsOutput list" where
  "relprop_records env g =
     map row_output (data_or_empty (catch_empty (query_relProps env g relPropertiesQuery)))"

definition triple_records :: "backend \<Rightarrow> Graph \<Rightarrow> Relationship list" where
  "triple_records env g =
     map row_output (data_or_empty (catch_empty (query_rels env g relQuery)))"

definition normalized :: "backend \<Rightarrow> Graph \<Rightarrow> StructuredSchema" where
  "normalized env g =
     \<lparr>nodeProps = Object_fromEntries (map (\<lambda>out. (np_label out, np_properties out)) (node_records env g)),
      relProps = Object_fromEntries (map (\<lambda>out. (rp_type out, rp_properties out)) (relprop_records env g)),
      relationships = triple_records env g\<rparr>"

text \<open>The rendering of a schema with nothing in it: the three headers, each body empty.\<close>

definition empty_rendering :: string where
  "empty_rendering =
     ''Node properties are the following:'' @ nl @ nl
     @ ''Relationship properties are the following:'' @ nl @ nl
     @ ''The relationships are the following:'' @ nl"

subsection \<open>The rendering as the specification words it\<close>

text \<open>
  Three sections, each a header line followed by one line per entry, in the order the
  entries are enumerated; lines and sections are separated by newlines.
\<close>

fun separated :: "string \<Rightarrow> string list \<Rightarrow> string" where
  "separated sep [] = []"
| "separated sep (x # xs) = x @ concat (map (\<lambda>y. sep @ y) xs)"

definition spec_property_line :: "string \<times> string list \<Rightarrow> string" where
  "spec_property_line entry = fst entry @ '': {'' @ separated '', '' (snd entry) @ ''}''"

definition spec_triple_line :: "Relationship \<Rightarrow> string" where
  "spec_triple_line rel =
     ''(:'' @ rel_start rel @ '') -[:'' @ rel_type rel @ '']-> (:'' @ rel_end rel @ '')''"

definition spec_section :: "string \<Rightarrow> string list \<Rightarrow> string" where
  "spec_section header entry_lines = header @ nl @ separated nl entry_lines"

definition spec_rendering :: "StructuredSchema \<Rightarrow> string" where
  "spec_rendering s =
     spec_section ''Node properties are the following:''
       (map spec_property_line (Object_entries (nodeProps s)))
     @ nl
     @ spec_section ''Relationship properties are the following:''
         (map spec_property_line (Object_entries (relProps s)))
     @ nl
     @ spec_section ''The relationships are the following:''
         (map spec_triple_line (relationships s))"

text \<open>
  The same layout read line by line: the text split at every newline, for schemas whose
  entry lines contain no newline of their own. A section without entries still has its
  (empty) body, so it shows as one empty line.
\<close>

fun split_lines :: "string \<Rightarrow> string list" where
  "split_lines [] = [[]]"
| "split_lines (c # cs) =
     (if c = CHR 0x0A then [] # split_lines cs
      else (case split_lines cs of l # ls \<Rightarrow> (c # l) # ls | [] \<Rightarrow> [[c]]))"

definition one_line :: "string \<Rightarrow> bool" where
  "one_line s = (CHR 0x0A \<notin> set s)"

definition body_lines :: "string list \<Rightarrow> string list" where
  "body_lines ls = (if ls = [] then [[]] else ls)"

definition spec_node_lines :: "StructuredSchema \<Rightarrow> string list" where
  "spec_node_lines s = map spec_property_line (Object_entries (nodeProps s))"

definition spec_rel_lines :: "StructuredSchema \<Rightarrow> string list" where
  "spec_rel_lines s = map spec_property_line (Object_entries (relProps s))"

definition spec_triple_lines :: "StructuredSchema \<Rightarrow> string list" where
  "spec_triple_lines s = map spec_triple_line (relationships s)"

subsection \<open>Sample backends, configurations and objects\<close>

text \<open>
  A backend whose graph is empty; one holding two people who know each other; one whose
  connection is gone, so that every query is rejected; one where only the node query is
  rejected; and one whose replies repeat a property name and a triple. The samples hold
  no port other than 6379, which their platform prints as such.
\<close>

definition empty_graph_backend :: backend where
  "empty_graph_backend =
     \<lparr>new_URL = (\<lambda>u. Inl (Error ''Invalid URL'')),
      number_toString = (\<lambda>x. if x = Num 6379 then ''6379'' else ''NaN''),
      connect = (\<lambda>opts. Inr (Driver 0)),
      driver_info = (\<lambda>d. None),
      driver_selectGraph = (\<lambda>d graphName. Inr (Graph 0)),
      driver_close = (\<lambda>d. None),
      query_nodeProps = (\<lambda>g q. Inr \<lparr>data = Some []\<rparr>),
      query_relProps = (\<lambda>g q. Inr \<lparr>data = Some []\<rparr>),
      query_rels = (\<lambda>g q. Inr \<lparr>data = Some []\<rparr>)\<rparr>"

definition knows :: Relationship where
  "knows = \<lparr>rel_start = ''Person'', rel_type = ''KNOWS'', rel_end = ''Person''\<rparr>"

definition people_backend :: backend where
  "people_backend = empty_graph_backend
     \<lparr>query_nodeProps := (\<lambda>g q. Inr \<lparr>data = Some
          [\<lparr>row_output = \<lparr>np_label = ''Person'', np_properties = [''name'', ''age'']\<rparr>\<rparr>]\<rparr>),
      query_relProps := (\<lambda>g q. Inr \<lparr>data = Some
          [\<lparr>row_output = \<lparr>rp_type = ''KNOWS'', rp_properties = [''since'']\<rparr>\<rparr>]\<rparr>),
      query_rels := (\<lambda>g q. Inr \<lparr>data = Some [\<lparr>row_output = knows\<rparr>]\<rparr>)\<rparr>"

definition disconnected_backend :: backend where
  "disconnected_backend = empty_graph_backend
     \<lparr>query_nodeProps := (\<lambda>g q. Inl (Error ''Connection is closed.'')),
      query_relProps := (\<lambda>g q. Inl (Error ''Connection is closed.'')),
      query_rels := (\<lambda>g q. Inl (Error ''Connection is closed.''))\<rparr>"

definition nodes_failing_backend :: backend where
  "nodes_failing_backend = people_backend
     \<lparr>query_nodeProps := (\<lambda>g q. Inl (Error ''Query timed out''))\<rparr>"

definition duplicates_backend :: backend where
  "duplicates_backend = empty_graph_backend
     \<lparr>query_nodeProps := (\<lambda>g q. Inr \<lparr>data = Some
          [\<lparr>row_output = \<lparr>np_label = ''Person'', np_properties = [''name'', ''name'']\<rparr>\<rparr>]\<rparr>),
      query_rels := (\<lambda>g q. Inr \<lparr>data = Some [\<lparr>row_output = knows\<rparr>, \<lparr>row_output = knows\<rparr>]\<rparr>)\<rparr>"

definition default_config :: FalkorDBGraphConfig where
  "default_config =
     \<lparr>cfg_host = None, cfg_port = None, cfg_graph = Some ''social'', cfg_url = None,
      cfg_username = None, cfg_password = None, cfg_driver = None, cfg_enhancedSchema = None\<rparr>"

definition external_config :: FalkorDBGraphConfig where
  "external_config = default_config\<lparr>cfg_driver := Some (Driver 7)\<rparr>"

definition selected_object :: FalkorDBGraph where
  "selected_object =
     \<lparr>driver = Some (Driver 0), graph = Some (Graph 0), schema = [],
      structuredSchema = emptySchema, enhancedSchema = False,
      host = ''localhost'', port = Num 6379, isExternalDriver = False\<rparr>"

definition external_object :: FalkorDBGraph where
  "external_object =
     \<lparr>driver = Some (Driver 7), graph = Some (Graph 0), schema = [],
      structuredSchema = emptySchema, enhancedSchema = False,
      host = ''localhost'', port = Num 6379, isExternalDriver = True\<rparr>"

definition populated_object :: FalkorDBGraph where
  "populated_object = after (refreshSchema people_backend selected_object)"

section \<open>Properties\<close>

subsection \<open>Objects as dictionaries\<close>

lemma set_insert_index: "set (insert_index k v obj) = insert (k, v) (set obj)"
  by (induction obj) (auto split: if_splits)

lemma distinct_insert_index:
  "distinct (map fst obj) \<Longrightarrow> \<not> has_key k obj \<Longrightarrow> distinct (map fst (insert_index k v obj))"
  by (induction obj) (auto simp: has_key_def set_insert_index image_iff)

lemma map_of_insert_index:
  "\<not> has_key k obj \<Longrightarrow> map_of (insert_index k v obj) x = (if x = k then Some v else map_of obj x)"
  by (induction obj) (auto simp: has_key_def)

lemma keys_overwrite:
  "map (fst \<circ> (\<lambda>(k', v'). if k' = k then (k', v) else (k', v'))) obj = map fst obj"
  by (induction obj) auto

lemma map_of_overwrite:
  "map_of (map (\<lambda>(k', v'). if k' = k then (k', v) else (k', v')) obj) x =
     (if x = k \<and> has_key k obj then Some v else map_of obj x)"
proof (induction obj arbitrary: x)
  case Nil
  show ?case by (simp add: has_key_def)
next
  case (Cons e obj)
  obtain k' v' where e: "e = (k', v')" by (cases e)
  have hk: "has_key k (e # obj) = (k' = k \<or> has_key k obj)"
    unfolding e by (auto simp: has_key_def)
  show ?case
    unfolding hk unfolding e by (simp add: Cons.IH)
qed

lemma distinct_define_property:
  "distinct (map fst obj) \<Longrightarrow> distinct (map fst (define_property k v obj))"
  by (simp add: define_property_def keys_overwrite distinct_insert_index) (simp add: has_key_def)

lemma map_of_define_property:
  "map_of (define_property k v obj) x = (if x = k then Some v else map_of obj x)"
proof (cases "has_key k obj")
  case True
  then show ?thesis by (simp add: define_property_def map_of_overwrite)
next
  case False
  then have "map_of obj k = None"
    by (simp add: has_key_def map_of_eq_None_iff)
  with False show ?thesis
    by (auto simp: define_property_def map_of_insert_index map_add_def split: option.splits)
qed

lemma set_define_property:
  "set (define_property k v obj) \<subseteq> insert (k, v) (set obj)"
  by (auto simp: define_property_def set_insert_index split: if_splits)

lemma foldl_define_distinct:
  "distinct (map fst acc) \<Longrightarrow>
   distinct (map fst (foldl (\<lambda>obj (k, v). define_property k v obj) acc es))"
  by (induction es arbitrary: acc) (auto simp: distinct_define_property)

lemma foldl_define_set:
  "set (foldl (\<lambda>obj (k, v). define_property k v obj) acc es) \<subseteq> set acc \<union> set es"
proof (induction es arbitrary: acc)
  case Nil
  show ?case by simp
next
  case (Cons e es)
  obtain k v where e: "e = (k, v)" by (cases e)
  have "set (foldl (\<lambda>obj (k, v). define_property k v obj) (define_property k v acc) es)
        \<subseteq> set (define_property k v acc) \<union> set es"
    by (rule Cons.IH)
  with set_define_property [of k v acc] show ?case
    unfolding e by auto
qed

lemma foldl_define_map_of:
  "map_of (foldl (\<lambda>obj (k, v). define_property k v obj) acc es) = map_of acc ++ map_of (rev es)"
proof (induction es arbitrary: acc)
  case Nil
  show ?case by simp
next
  case (Cons e es)
  obtain k v where e: "e = (k, v)" by (cases e)
  show ?case
    unfolding e by (auto simp: Cons.IH map_of_define_property fun_eq_iff map_add_def split: option.splits)
qed

lemma distinct_keys_fromEntries: "distinct (map fst (Object_fromEntries es))"
  by (simp add: Object_fromEntries_def foldl_define_distinct)

lemma set_fromEntries: "set (Object_fromEntries es) \<subseteq> set es"
  using foldl_define_set [of "[]" es] by (simp add: Object_fromEntries_def)

lemma map_of_fromEntries: "map_of (Object_fromEntries es) = map_of (rev es)"
  by (simp add: Object_fromEntries_def foldl_define_map_of)

subsection \<open>What refreshSchema computes\<close>

lemma catch_empty_query:
  "graph this = Some g \<Longrightarrow> catch_empty (fst (query run this q)) = catch_empty (run g q)"
  by (simp add: query_def catch_empty_def split: sum.splits)

lemma effects_query:
  "graph this = Some g \<Longrightarrow> snd (query run this q) = [GraphQuery g q]"
  by (simp add: query_def split: sum.splits)

lemma refreshSchema_try_selected:
  assumes "graph this = Some g"
  shows "refreshSchema_try env this =
     (Inr (),
      this\<lparr>structuredSchema := normalized env g,
           schema := formatSchema (this\<lparr>structuredSchema := normalized env g\<rparr>)\<rparr>,
      [GraphQuery g nodePropertiesQuery, GraphQuery g relPropertiesQuery, GraphQuery g relQuery]
      @ (if enhancedSchema this
         then [ConsoleLog ''Enhanced schema details not yet implemented for FalkorDB.'']
         else []))"
  using assms
  by (simp add: refreshSchema_try_def Let_def split_beta catch_empty_query effects_query
      enhanceSchemaDetails_def normalized_def node_records_def relprop_records_def
      triple_records_def comp_def)

lemma refreshSchema_selected:
  assumes "graph this = Some g"
  shows "refreshSchema env this =
     (Inr (),
      this\<lparr>structuredSchema := normalized env g,
           schema := formatSchema (this\<lparr>structuredSchema := normalized env g\<rparr>)\<rparr>,
      [GraphQuery g nodePropertiesQuery, GraphQuery g relPropertiesQuery, GraphQuery g relQuery]
      @ (if enhancedSchema this
         then [ConsoleLog ''Enhanced schema details not yet implemented for FalkorDB.'']
         else []))"
  using assms by (simp add: refreshSchema_def refreshSchema_try_selected)


lemma formatSchema_empty:
  "structuredSchema this = emptySchema \<Longrightarrow> formatSchema this = empty_rendering"
  by (simp add: formatSchema_def emptySchema_def empty_rendering_def Object_entries_def)

lemma refreshSchema_unselected:
  assumes "graph this = None"
  shows "refreshSchema env this =
           (Inl (Error ''No graph selected. Call selectGraph() first.''), this, [])"
  using assms by (simp add: refreshSchema_def)

subsection \<open>The sample objects are the ones the code builds\<close>


lemma initialize_external:
  "initialize empty_graph_backend external_config =
     (Inr external_object, [DriverInfo (Driver 7), DriverSelectGraph (Driver 7) ''social''])"
  by (simp add: initialize_def initialize_try_def constructor_def default_config_def
      external_config_def
      empty_graph_backend_def external_object_def verifyConnectivity_def selectGraph_def
      driverOptions_def truthy_def nullish_def Let_def)

lemma graph_selected_object: "graph selected_object = Some (Graph 0)"
  by (simp add: selected_object_def)

lemma normalized_people:
  "normalized people_backend (Graph 0) =
     \<lparr>nodeProps = [(''Person'', [''name'', ''age''])],
      relProps = [(''KNOWS'', [''since''])],
      relationships = [knows]\<rparr>"
  by (simp add: normalized_def node_records_def relprop_records_def triple_records_def
      people_backend_def empty_graph_backend_def catch_empty_def data_or_empty_def
      Object_fromEntries_def define_property_def has_key_def is_array_index_def is_digit_def)

lemma populated_object_eq:
  "populated_object = selected_object
     \<lparr>structuredSchema :=
        \<lparr>nodeProps = [(''Person'', [''name'', ''age''])],
         relProps = [(''KNOWS'', [''since''])],
         relationships = [knows]\<rparr>,
      schema := ''Node properties are the following:'' @ nl @ ''Person: {name, age}'' @ nl
        @ ''Relationship properties are the following:'' @ nl @ ''KNOWS: {since}'' @ nl
        @ ''The relationships are the following:'' @ nl @ ''(:Person) -[:KNOWS]-> (:Person)''\<rparr>"
  by (simp add: populated_object_def after_def refreshSchema_selected [OF graph_selected_object]
      normalized_people formatSchema_def Object_entries_def knows_def)

lemma normalized_failed:
  assumes "query_nodeProps env g nodePropertiesQuery = Inl e1"
    and "query_relProps env g relPropertiesQuery = Inl e2"
    and "query_rels env g relQuery = Inl e3"
  shows "normalized env g = emptySchema"
  using assms
  by (simp add: normalized_def node_records_def relprop_records_def triple_records_def
      catch_empty_def data_or_empty_def Object_fromEntries_def emptySchema_def)

subsection \<open>What each method leaves alone\<close>

lemma selectGraph_frame:
  assumes "selectGraph env this graphName = (r, this', t)"
  shows "isExternalDriver this' = isExternalDriver this \<and> driver this' = driver this
     \<and> schema this' = schema this \<and> structuredSchema this' = structuredSchema this"
  using assms by (auto simp: selectGraph_def split: option.splits sum.splits)

lemma verifyConnectivity_frame:
  assumes "verifyConnectivity env this = (r, this', t)"
  shows "this' = this"
  using assms by (auto simp: verifyConnectivity_def split: option.splits)

lemma close_frame:
  assumes "close env this = (r, this', t)"
  shows "this' = this \<and> r = Inr ()"
  using assms by (auto simp: close_def close_try_def split: option.splits if_splits)

lemma refreshSchema_frame:
  assumes "refreshSchema env this = (r, this', t)"
  shows "isExternalDriver this' = isExternalDriver this \<and> driver this' = driver this"
proof (cases "graph this")
  case None
  with assms show ?thesis by (simp add: refreshSchema_unselected)
next
  case (Some g)
  with assms show ?thesis by (auto simp: refreshSchema_selected)
qed

lemma initialize_try_fields:
  assumes "initialize_try env config g0 = (Inr this, t)"
  shows "isExternalDriver this = isExternalDriver g0 \<and> schema this = schema g0
     \<and> structuredSchema this = structuredSchema g0
     \<and> (case cfg_driver config of Some d \<Rightarrow> driver this = Some d | None \<Rightarrow> driver this \<noteq> None)"
  using assms
  by (auto simp: initialize_try_def verifyConnectivity_def selectGraph_def
      split: option.splits sum.splits if_splits prod.splits)

lemma initialize_fields:
  assumes "initialize env config = (Inr this, t)"
  shows "isExternalDriver this = (cfg_driver config \<noteq> None) \<and> schema this = []
     \<and> structuredSchema this = emptySchema"
proof -
  from assms have "initialize_try env config (constructor env config) = (Inr this, t)"
    by (auto simp: initialize_def Let_def split: prod.splits sum.splits)
  from initialize_try_fields [OF this] show ?thesis
    by (simp add: constructor_def Let_def split_beta)
qed

lemma reachable_isExternalDriver:
  assumes "reachable config this"
  shows "isExternalDriver this = (cfg_driver config \<noteq> None)"
  using assms
proof (induction rule: reachable.induct)
  case (constructed env)
  show ?case by (simp add: constructor_def Let_def split_beta)
next
  case (initialized env this t)
  then show ?case by (simp add: initialize_fields)
next
  case (after_selectGraph this env graphName r this' t)
  then show ?case using selectGraph_frame by metis
next
  case (after_refreshSchema this env r this' t)
  then show ?case using refreshSchema_frame by metis
next
  case (after_close this env r this' t)
  then show ?case using close_frame by metis
qed







lemma reachable_external_object: "reachable external_config external_object"
  by (rule reachable.initialized [OF initialize_external])

lemma normalized_duplicates:
  "normalized duplicates_backend (Graph 0) =
     \<lparr>nodeProps = [(''Person'', [''name'', ''name''])], relProps = [],
      relationships = [knows, knows]\<rparr>"
  by (simp add: normalized_def node_records_def relprop_records_def triple_records_def
      duplicates_backend_def empty_graph_backend_def catch_empty_def data_or_empty_def
      Object_fromEntries_def define_property_def has_key_def is_array_index_def is_digit_def)

subsection \<open>Joining and splitting\<close>

lemma join_separated: "join sep xs = separated sep xs"
  by (induction sep xs rule: join.induct) simp_all

lemma split_lines_nonempty: "split_lines s \<noteq> []"
  by (induction s) (auto split: list.splits)

lemma split_lines_one_line: "one_line s \<Longrightarrow> split_lines s = [s]"
  by (induction s) (auto simp: one_line_def)

lemma split_lines_append:
  "one_line a \<Longrightarrow> split_lines (a @ nl @ b) = a # split_lines b"
  by (induction a) (auto simp: one_line_def nl_def)

lemma split_lines_separated:
  "list_all one_line ls \<Longrightarrow> split_lines (separated nl ls @ nl @ rest) = body_lines ls @ split_lines rest"
proof (induction ls)
  case Nil
  then show ?case by (simp add: body_lines_def nl_def)
next
  case (Cons l ls)
  then show ?case
  proof (cases ls)
    case Nil
    with Cons.prems show ?thesis by (simp add: body_lines_def split_lines_append)
  next
    case (Cons m ms)
    with Cons.prems Cons.IH show ?thesis
      by (simp add: body_lines_def split_lines_append)
  qed
qed

lemma split_lines_separated_last:
  "list_all one_line ls \<Longrightarrow> split_lines (separated nl ls) = body_lines ls"
proof (induction ls)
  case Nil
  then show ?case by (simp add: body_lines_def)
next
  case (Cons l ls)
  then show ?case
  proof (cases ls)
    case Nil
    with Cons.prems show ?thesis by (simp add: body_lines_def split_lines_one_line)
  next
    case (Cons m ms)
    with Cons.prems Cons.IH show ?thesis
      by (simp add: body_lines_def split_lines_append)
  qed
qed

lemma sections_lines:
  assumes "one_line h1" "one_line h2" "one_line h3"
    and "list_all one_line ls1" "list_all one_line ls2" "list_all one_line ls3"
  shows "split_lines (h1 @ nl @ separated nl ls1 @ nl @ h2 @ nl @ separated nl ls2 @ nl
                      @ h3 @ nl @ separated nl ls3)
     = [h1] @ body_lines ls1 @ [h2] @ body_lines ls2 @ [h3] @ body_lines ls3"
  using assms
  by (simp add: split_lines_append split_lines_separated split_lines_separated_last)

section \<open>The claims\<close>

subsection \<open>C1: every query rejected\<close>

text \<open>
  As stated, C1 does not hold of the code. On an object with a graph selected and a
  populated cache, a backend that rejects each of the three queries makes \<open>refreshSchema\<close>
  return normally, and both cached values are replaced.
\<close>

theorem cache_untouched_counterexample:
  "graph populated_object = Some (Graph 0)
   \<and> query_nodeProps disconnected_backend (Graph 0) nodePropertiesQuery
       = Inl (Error ''Connection is closed.'')
   \<and> query_relProps disconnected_backend (Graph 0) relPropertiesQuery
       = Inl (Error ''Connection is closed.'')
   \<and> query_rels disconnected_backend (Graph 0) relQuery = Inl (Error ''Connection is closed.'')
   \<and> result (refreshSchema disconnected_backend populated_object) = Inr ()
   \<and> structuredSchema (after (refreshSchema disconnected_backend populated_object))
       \<noteq> structuredSchema populated_object
   \<and> schema (after (refreshSchema disconnected_backend populated_object))
       \<noteq> schema populated_object"
proof -
  have g: "graph populated_object = Some (Graph 0)"
    by (simp add: populated_object_eq selected_object_def)
  have n: "normalized disconnected_backend (Graph 0) = emptySchema"
    by (rule normalized_failed) (simp_all add: disconnected_backend_def)
  show ?thesis
    unfolding refreshSchema_selected [OF g] n
    by (simp add: result_def after_def formatSchema_def emptySchema_def Object_entries_def
        populated_object_eq selected_object_def disconnected_backend_def
        empty_graph_backend_def nl_def)
qed

text \<open>
  C1, amended. When a graph is selected and each of the three introspection queries is
  rejected, \<open>refreshSchema\<close> returns normally (no error is propagated), the cached
  structured schema becomes the empty one and the cached rendering becomes the three
  headers with empty bodies.
\<close>

theorem refreshSchema_all_queries_fail:
  assumes "graph this = Some g"
    and "query_nodeProps env g nodePropertiesQuery = Inl e1"
    and "query_relProps env g relPropertiesQuery = Inl e2"
    and "query_rels env g relQuery = Inl e3"
  shows "result (refreshSchema env this) = Inr ()
     \<and> structuredSchema (after (refreshSchema env this)) = emptySchema
     \<and> schema (after (refreshSchema env this)) = empty_rendering"
  using assms(1) normalized_failed [OF assms(2-4)]
  by (simp add: refreshSchema_selected result_def after_def formatSchema_empty)

theorem refreshSchema_all_queries_fail_witness:
  "graph populated_object = Some (Graph 0)
   \<and> query_nodeProps disconnected_backend (Graph 0) nodePropertiesQuery
       = Inl (Error ''Connection is closed.'')
   \<and> query_relProps disconnected_backend (Graph 0) relPropertiesQuery
       = Inl (Error ''Connection is closed.'')
   \<and> query_rels disconnected_backend (Graph 0) relQuery = Inl (Error ''Connection is closed.'')
   \<and> result (refreshSchema disconnected_backend populated_object) = Inr ()
   \<and> structuredSchema (after (refreshSchema disconnected_backend populated_object)) = emptySchema
   \<and> schema (after (refreshSchema disconnected_backend populated_object)) = empty_rendering"
proof -
  have g: "graph populated_object = Some (Graph 0)"
    by (simp add: populated_object_eq selected_object_def)
  have q1: "query_nodeProps disconnected_backend (Graph 0) nodePropertiesQuery
              = Inl (Error ''Connection is closed.'')"
    by (simp add: disconnected_backend_def)
  have q2: "query_relProps disconnected_backend (Graph 0) relPropertiesQuery
              = Inl (Error ''Connection is closed.'')"
    by (simp add: disconnected_backend_def)
  have q3: "query_rels disconnected_backend (Graph 0) relQuery
              = Inl (Error ''Connection is closed.'')"
    by (simp add: disconnected_backend_def)
  show ?thesis
    using refreshSchema_all_queries_fail [OF g q1 q2 q3] g q1 q2 q3 by simp
qed

subsection \<open>C2: some queries rejected\<close>

text \<open>
  C2. With a graph selected, \<open>refreshSchema\<close> returns normally whichever of the three
  queries are rejected. Each dimension of the structured schema is empty when its query
  was rejected, and is otherwise built from the records of its own reply, whatever
  happened to the other two queries.
\<close>

theorem refreshSchema_partial_failure:
  assumes "graph this = Some g"
  shows "result (refreshSchema env this) = Inr ()
     \<and> nodeProps (structuredSchema (after (refreshSchema env this))) =
         (case query_nodeProps env g nodePropertiesQuery of
            Inl e \<Rightarrow> []
          | Inr reply \<Rightarrow>
              Object_fromEntries
                (map (\<lambda>el. (np_label (row_output el), np_properties (row_output el)))
                   (data_or_empty reply)))
     \<and> relProps (structuredSchema (after (refreshSchema env this))) =
         (case query_relProps env g relPropertiesQuery of
            Inl e \<Rightarrow> []
          | Inr reply \<Rightarrow>
              Object_fromEntries
                (map (\<lambda>el. (rp_type (row_output el), rp_properties (row_output el)))
                   (data_or_empty reply)))
     \<and> relationships (structuredSchema (after (refreshSchema env this))) =
         (case query_rels env g relQuery of
            Inl e \<Rightarrow> []
          | Inr reply \<Rightarrow> map row_output (data_or_empty reply))"
  using assms
  by (simp add: refreshSchema_selected result_def after_def normalized_def node_records_def
      relprop_records_def triple_records_def catch_empty_def data_or_empty_def
      Object_fromEntries_def comp_def split: sum.splits)

theorem refreshSchema_partial_failure_witness:
  "graph selected_object = Some (Graph 0)
   \<and> query_nodeProps nodes_failing_backend (Graph 0) nodePropertiesQuery
       = Inl (Error ''Query timed out'')
   \<and> result (refreshSchema nodes_failing_backend selected_object) = Inr ()
   \<and> nodeProps (structuredSchema (after (refreshSchema nodes_failing_backend selected_object))) = []
   \<and> relProps (structuredSchema (after (refreshSchema nodes_failing_backend selected_object)))
       = [(''KNOWS'', [''since''])]
   \<and> relationships (structuredSchema (after (refreshSchema nodes_failing_backend selected_object)))
       = [knows]"
  using refreshSchema_partial_failure [OF graph_selected_object, of nodes_failing_backend]
  by (simp add: graph_selected_object nodes_failing_backend_def people_backend_def
      empty_graph_backend_def data_or_empty_def Object_fromEntries_def define_property_def
      has_key_def is_array_index_def is_digit_def)

subsection \<open>C3: refreshing without a selected graph\<close>

text \<open>
  C3. In every state in which no graph has been selected, \<open>refreshSchema\<close> throws the
  error "No graph selected. Call selectGraph() first.", makes no call on the outside world
  (so no query is issued), and leaves every field of the object, the cached structured
  schema and the rendered string among them, as it was.
\<close>

theorem refreshSchema_without_graph:
  assumes "graph this = None"
  shows "refreshSchema env this =
           (Inl (Error ''No graph selected. Call selectGraph() first.''), this, [])"
  using assms by (simp add: refreshSchema_def)

theorem refreshSchema_without_graph_witness:
  "graph (populated_object\<lparr>graph := None\<rparr>) = None
   \<and> refreshSchema people_backend (populated_object\<lparr>graph := None\<rparr>) =
       (Inl (Error ''No graph selected. Call selectGraph() first.''),
        populated_object\<lparr>graph := None\<rparr>, [])"
  using refreshSchema_without_graph [of "populated_object\<lparr>graph := None\<rparr>" people_backend]
  by simp

subsection \<open>C4: duplicates in the replies\<close>

text \<open>
  As stated, C4 does not hold of the code. The normalization removes no duplicate: a
  reply that repeats a property name or a triple leaves the repetition in the structured
  schema.
\<close>

theorem normalization_deduplicates_counterexample:
  "graph selected_object = Some (Graph 0)
   \<and> query_nodeProps duplicates_backend (Graph 0) nodePropertiesQuery
       = Inr \<lparr>data = Some [\<lparr>row_output =
                 \<lparr>np_label = ''Person'', np_properties = [''name'', ''name'']\<rparr>\<rparr>]\<rparr>
   \<and> query_rels duplicates_backend (Graph 0) relQuery
       = Inr \<lparr>data = Some [\<lparr>row_output = knows\<rparr>, \<lparr>row_output = knows\<rparr>]\<rparr>
   \<and> nodeProps (structuredSchema (after (refreshSchema duplicates_backend selected_object)))
       = [(''Person'', [''name'', ''name''])]
   \<and> \<not> distinct [''name'', ''name'']
   \<and> relationships (structuredSchema (after (refreshSchema duplicates_backend selected_object)))
       = [knows, knows]
   \<and> \<not> distinct [knows, knows]"
  by (simp add: refreshSchema_selected [OF graph_selected_object] after_def normalized_duplicates
      graph_selected_object)
     (simp add: duplicates_backend_def empty_graph_backend_def)

text \<open>
  C4, amended. The normalization removes no duplicates; uniqueness is the work of the
  queries (\<open>collect(DISTINCT key)\<close>, \<open>RETURN DISTINCT\<close>). With a graph selected,
  \<open>relationships\<close> is the list of received triples, unchanged and in order. \<open>nodeProps\<close>
  has exactly the received labels as keys, each once, and holds for each label the
  property list of the last received record with that label, unchanged; \<open>relProps\<close> does
  the same for relationship types. Hence, when every received property list is free of
  duplicates, so is every property list of \<open>nodeProps\<close> and \<open>relProps\<close>, and when the
  received triples are pairwise different, so are those of \<open>relationships\<close>.
\<close>

theorem normalization_keeps_lists:
  assumes "graph this = Some g"
  shows "relationships (structuredSchema (after (refreshSchema env this))) = triple_records env g
     \<and> map_of (nodeProps (structuredSchema (after (refreshSchema env this)))) =
         map_of (rev (map (\<lambda>out. (np_label out, np_properties out)) (node_records env g)))
     \<and> map_of (relProps (structuredSchema (after (refreshSchema env this)))) =
         map_of (rev (map (\<lambda>out. (rp_type out, rp_properties out)) (relprop_records env g)))
     \<and> distinct (map fst (nodeProps (structuredSchema (after (refreshSchema env this)))))
     \<and> distinct (map fst (relProps (structuredSchema (after (refreshSchema env this)))))
     \<and> ((\<forall>out \<in> set (node_records env g). distinct (np_properties out)) \<longrightarrow>
          (\<forall>(label, props) \<in> set (nodeProps (structuredSchema (after (refreshSchema env this)))).
             distinct props))
     \<and> ((\<forall>out \<in> set (relprop_records env g). distinct (rp_properties out)) \<longrightarrow>
          (\<forall>(type, props) \<in> set (relProps (structuredSchema (after (refreshSchema env this)))).
             distinct props))
     \<and> (distinct (triple_records env g) \<longrightarrow>
          distinct (relationships (structuredSchema (after (refreshSchema env this)))))"
proof -
  have s: "structuredSchema (after (refreshSchema env this)) = normalized env g"
    using assms by (simp add: refreshSchema_selected after_def)
  have t: "relationships (normalized env g) = triple_records env g"
    by (simp add: normalized_def)
  have m1: "map_of (nodeProps (normalized env g)) =
      map_of (rev (map (\<lambda>out. (np_label out, np_properties out)) (node_records env g)))"
    by (simp add: normalized_def map_of_fromEntries)
  have m2: "map_of (relProps (normalized env g)) =
      map_of (rev (map (\<lambda>out. (rp_type out, rp_properties out)) (relprop_records env g)))"
    by (simp add: normalized_def map_of_fromEntries)
  have k1: "distinct (map fst (nodeProps (normalized env g)))"
    and k2: "distinct (map fst (relProps (normalized env g)))"
    by (simp_all add: normalized_def distinct_keys_fromEntries)
  have n: "(\<forall>out \<in> set (node_records env g). distinct (np_properties out)) \<longrightarrow>
      (\<forall>(label, props) \<in> set (nodeProps (normalized env g)). distinct props)"
    using set_fromEntries [of "map (\<lambda>out. (np_label out, np_properties out)) (node_records env g)"]
    by (auto simp: normalized_def)
  have r: "(\<forall>out \<in> set (relprop_records env g). distinct (rp_properties out)) \<longrightarrow>
      (\<forall>(type, props) \<in> set (relProps (normalized env g)). distinct props)"
    using set_fromEntries [of "map (\<lambda>out. (rp_type out, rp_properties out)) (relprop_records env g)"]
    by (auto simp: normalized_def)
  have d: "distinct (triple_records env g) \<longrightarrow> distinct (relationships (normalized env g))"
    by (simp add: t)
  show ?thesis
    unfolding s
    by (rule conjI [OF t conjI [OF m1 conjI [OF m2 conjI [OF k1 conjI [OF k2
          conjI [OF n conjI [OF r d]]]]]]])
qed

theorem normalization_keeps_lists_witness:
  "graph selected_object = Some (Graph 0)
   \<and> node_records people_backend (Graph 0)
       = [\<lparr>np_label = ''Person'', np_properties = [''name'', ''age'']\<rparr>]
   \<and> relprop_records people_backend (Graph 0)
       = [\<lparr>rp_type = ''KNOWS'', rp_properties = [''since'']\<rparr>]
   \<and> triple_records people_backend (Graph 0) = [knows]
   \<and> relationships (structuredSchema (after (refreshSchema people_backend selected_object)))
       = [knows]
   \<and> map_of (nodeProps (structuredSchema (after (refreshSchema people_backend selected_object))))
         ''Person'' = Some [''name'', ''age'']
   \<and> map_of (relProps (structuredSchema (after (refreshSchema people_backend selected_object))))
         ''KNOWS'' = Some [''since'']
   \<and> distinct [''name'', ''age'']
   \<and> distinct (relationships (structuredSchema (after (refreshSchema people_backend selected_object))))"
proof -
  have r1: "node_records people_backend (Graph 0)
              = [\<lparr>np_label = ''Person'', np_properties = [''name'', ''age'']\<rparr>]"
    by (simp add: node_records_def people_backend_def empty_graph_backend_def catch_empty_def
        data_or_empty_def)
  have r2: "relprop_records people_backend (Graph 0)
              = [\<lparr>rp_type = ''KNOWS'', rp_properties = [''since'']\<rparr>]"
    by (simp add: relprop_records_def people_backend_def empty_graph_backend_def catch_empty_def
        data_or_empty_def)
  have r3: "triple_records people_backend (Graph 0) = [knows]"
    by (simp add: triple_records_def people_backend_def empty_graph_backend_def catch_empty_def
        data_or_empty_def)
  show ?thesis
    using normalization_keeps_lists [OF graph_selected_object, of people_backend]
    unfolding r1 r2 r3
    by (simp add: graph_selected_object)
qed

subsection \<open>C5: the empty graph\<close>

text \<open>
  C5. When a graph is selected and each of the three queries succeeds with zero records,
  the refresh leaves an empty \<open>nodeProps\<close>, an empty \<open>relProps\<close> and an empty
  \<open>relationships\<close>, and a rendering made of the three headers, each followed by an
  empty body.
\<close>

theorem refreshSchema_empty_graph:
  assumes "graph this = Some g"
    and "query_nodeProps env g nodePropertiesQuery = Inr nodesReply"
    and "query_relProps env g relPropertiesQuery = Inr relPropsReply"
    and "query_rels env g relQuery = Inr relsReply"
    and "data_or_empty nodesReply = []"
    and "data_or_empty relPropsReply = []"
    and "data_or_empty relsReply = []"
  shows "result (refreshSchema env this) = Inr ()
     \<and> structuredSchema (after (refreshSchema env this))
         = \<lparr>nodeProps = [], relProps = [], relationships = []\<rparr>
     \<and> schema (after (refreshSchema env this)) =
         ''Node properties are the following:'' @ nl @ [] @ nl
         @ ''Relationship properties are the following:'' @ nl @ [] @ nl
         @ ''The relationships are the following:'' @ nl @ []"
proof -
  have "normalized env g = emptySchema"
    using assms(2-7)
    by (simp add: normalized_def node_records_def relprop_records_def triple_records_def
        catch_empty_def Object_fromEntries_def emptySchema_def)
  with assms(1) show ?thesis
    by (simp add: refreshSchema_selected result_def after_def formatSchema_empty
        empty_rendering_def) (simp add: emptySchema_def)
qed

theorem refreshSchema_empty_graph_witness:
  "graph selected_object = Some (Graph 0)
   \<and> query_nodeProps empty_graph_backend (Graph 0) nodePropertiesQuery = Inr \<lparr>data = Some []\<rparr>
   \<and> query_relProps empty_graph_backend (Graph 0) relPropertiesQuery = Inr \<lparr>data = Some []\<rparr>
   \<and> query_rels empty_graph_backend (Graph 0) relQuery = Inr \<lparr>data = Some []\<rparr>
   \<and> result (refreshSchema empty_graph_backend selected_object) = Inr ()
   \<and> structuredSchema (after (refreshSchema empty_graph_backend selected_object))
       = \<lparr>nodeProps = [], relProps = [], relationships = []\<rparr>
   \<and> schema (after (refreshSchema empty_graph_backend selected_object)) =
       ''Node properties are the following:'' @ nl @ nl
       @ ''Relationship properties are the following:'' @ nl @ nl
       @ ''The relationships are the following:'' @ nl"
proof -
  have q1: "query_nodeProps empty_graph_backend (Graph 0) nodePropertiesQuery
              = Inr \<lparr>data = Some []\<rparr>"
    by (simp add: empty_graph_backend_def)
  have q2: "query_relProps empty_graph_backend (Graph 0) relPropertiesQuery
              = Inr \<lparr>data = Some []\<rparr>"
    by (simp add: empty_graph_backend_def)
  have q3: "query_rels empty_graph_backend (Graph 0) relQuery = Inr \<lparr>data = Some []\<rparr>"
    by (simp add: empty_graph_backend_def)
  have d1: "data_or_empty (\<lparr>data = Some []\<rparr> :: NodePropsOutput QueryReply) = []"
    by (simp add: data_or_empty_def)
  have d2: "data_or_empty (\<lparr>data = Some []\<rparr> :: RelPropsOutput QueryReply) = []"
    by (simp add: data_or_empty_def)
  have d3: "data_or_empty (\<lparr>data = Some []\<rparr> :: Relationship QueryReply) = []"
    by (simp add: data_or_empty_def)
  show ?thesis
    using refreshSchema_empty_graph [OF graph_selected_object q1 q2 q3 d1 d2 d3]
      graph_selected_object q1 q2 q3
    by simp
qed

subsection \<open>C6: the layout of the rendering\<close>

text \<open>
  C6. For every structured schema the rendering is three sections, in the order node
  properties, relationship properties, relationships. Each is its literal header, a
  newline, and then one line per entry, \<open>label: {prop1, prop2, ...}\<close> for the two property
  maps and \<open>(:start) -[:type]-> (:end)\<close> for the triples, the entries in the order
  \<open>Object.entries\<close> and the list give them, separated by newlines; the sections are
  separated by newlines. Read line by line (when no entry carries a newline of its
  own), the text is header, entry lines, header, entry lines, header, entry lines, a
  section without entries contributing one empty line.
\<close>

theorem formatSchema_layout:
  "formatSchema this = spec_rendering (structuredSchema this)
   \<and> (list_all one_line (spec_node_lines (structuredSchema this))
        \<and> list_all one_line (spec_rel_lines (structuredSchema this))
        \<and> list_all one_line (spec_triple_lines (structuredSchema this))
      \<longrightarrow> split_lines (formatSchema this) =
            [''Node properties are the following:'']
            @ body_lines (spec_node_lines (structuredSchema this))
            @ [''Relationship properties are the following:'']
            @ body_lines (spec_rel_lines (structuredSchema this))
            @ [''The relationships are the following:'']
            @ body_lines (spec_triple_lines (structuredSchema this)))"
proof -
  have l1: "(\<lambda>(label, props). label @ '': {'' @ join '', '' props @ ''}'') = spec_property_line"
    by (simp add: fun_eq_iff spec_property_line_def join_separated)
  have l2: "(\<lambda>rel. ''(:'' @ rel_start rel @ '') -[:'' @ rel_type rel @ '']-> (:'' @ rel_end rel @ '')'')
              = spec_triple_line"
    by (simp add: fun_eq_iff spec_triple_line_def)
  have eq: "formatSchema this = spec_rendering (structuredSchema this)"
    unfolding formatSchema_def Let_def l1 l2
    by (simp add: spec_rendering_def spec_section_def join_separated)
  have h1: "one_line ''Node properties are the following:''"
    and h2: "one_line ''Relationship properties are the following:''"
    and h3: "one_line ''The relationships are the following:''"
    by (simp_all add: one_line_def)
  have "split_lines (spec_rendering (structuredSchema this)) =
          [''Node properties are the following:'']
          @ body_lines (spec_node_lines (structuredSchema this))
          @ [''Relationship properties are the following:'']
          @ body_lines (spec_rel_lines (structuredSchema this))
          @ [''The relationships are the following:'']
          @ body_lines (spec_triple_lines (structuredSchema this))"
    if a: "list_all one_line (spec_node_lines (structuredSchema this))"
      and b: "list_all one_line (spec_rel_lines (structuredSchema this))"
      and c: "list_all one_line (spec_triple_lines (structuredSchema this))"
    using sections_lines [OF h1 h2 h3 a b c]
    unfolding spec_rendering_def spec_section_def append_assoc
      spec_node_lines_def spec_rel_lines_def spec_triple_lines_def .
  with eq show ?thesis by simp
qed

theorem formatSchema_layout_witness:
  "list_all one_line (spec_node_lines (structuredSchema populated_object))
   \<and> list_all one_line (spec_rel_lines (structuredSchema populated_object))
   \<and> list_all one_line (spec_triple_lines (structuredSchema populated_object))
   \<and> split_lines (formatSchema populated_object) =
       [''Node properties are the following:'',
        ''Person: {name, age}'',
        ''Relationship properties are the following:'',
        ''KNOWS: {since}'',
        ''The relationships are the following:'',
        ''(:Person) -[:KNOWS]-> (:Person)'']"
proof -
  have n: "spec_node_lines (structuredSchema populated_object) = [''Person: {name, age}'']"
    by (simp add: populated_object_eq spec_node_lines_def spec_property_line_def
        Object_entries_def)
  have r: "spec_rel_lines (structuredSchema populated_object) = [''KNOWS: {since}'']"
    by (simp add: populated_object_eq spec_rel_lines_def spec_property_line_def
        Object_entries_def)
  have t: "spec_triple_lines (structuredSchema populated_object)
             = [''(:Person) -[:KNOWS]-> (:Person)'']"
    by (simp add: populated_object_eq spec_triple_lines_def spec_triple_line_def knows_def)
  show ?thesis
    using formatSchema_layout [of populated_object, THEN conjunct2]
    unfolding n r t
    by (simp add: one_line_def body_lines_def)
qed

subsection \<open>C7: refreshing twice\<close>

text \<open>
  C7. With a graph selected, if the three queries are answered the second time as they
  were the first time, a second \<open>refreshSchema\<close> leaves the same structured schema and
  the same rendering as the first. The structured schema after a refresh does not
  depend on the one cached before it: nothing is merged or accumulated.
\<close>

theorem refreshSchema_idempotent:
  assumes "graph this = Some g"
    and "query_nodeProps env2 g nodePropertiesQuery = query_nodeProps env1 g nodePropertiesQuery"
    and "query_relProps env2 g relPropertiesQuery = query_relProps env1 g relPropertiesQuery"
    and "query_rels env2 g relQuery = query_rels env1 g relQuery"
  shows "structuredSchema (after (refreshSchema env2 (after (refreshSchema env1 this))))
           = structuredSchema (after (refreshSchema env1 this))
     \<and> schema (after (refreshSchema env2 (after (refreshSchema env1 this))))
           = schema (after (refreshSchema env1 this))
     \<and> structuredSchema (after (refreshSchema env1 (this\<lparr>structuredSchema := prior\<rparr>)))
           = structuredSchema (after (refreshSchema env1 this))"
proof -
  have n: "normalized env2 g = normalized env1 g"
    using assms(2-4)
    by (simp add: normalized_def node_records_def relprop_records_def triple_records_def)
  have g1: "graph (after (refreshSchema env1 this)) = Some g"
    using assms(1) by (simp add: refreshSchema_selected after_def)
  have g2: "graph (this\<lparr>structuredSchema := prior\<rparr>) = Some g"
    using assms(1) by simp
  show ?thesis
    unfolding refreshSchema_selected [OF g1] refreshSchema_selected [OF g2]
    unfolding refreshSchema_selected [OF assms(1)] n
    by (simp add: after_def formatSchema_def)
qed

theorem refreshSchema_idempotent_witness:
  "graph populated_object = Some (Graph 0)
   \<and> structuredSchema (after (refreshSchema people_backend (after (refreshSchema people_backend populated_object))))
       = structuredSchema (after (refreshSchema people_backend populated_object))
   \<and> schema (after (refreshSchema people_backend (after (refreshSchema people_backend populated_object))))
       = schema (after (refreshSchema people_backend populated_object))
   \<and> structuredSchema (after (refreshSchema people_backend (populated_object\<lparr>structuredSchema := emptySchema\<rparr>)))
       = structuredSchema populated_object"
proof -
  have g: "graph populated_object = Some (Graph 0)"
    by (simp add: populated_object_eq selected_object_def)
  have s: "structuredSchema (after (refreshSchema people_backend populated_object))
             = structuredSchema populated_object"
    unfolding refreshSchema_selected [OF g]
    by (simp add: after_def normalized_people populated_object_eq)
  show ?thesis
    using refreshSchema_idempotent [OF g refl refl refl, of people_backend emptySchema] g s
    by simp
qed

subsection \<open>C8: the rendering and the structured schema\<close>




subsection \<open>C9: the enhanced mode\<close>

text \<open>
  C9. For every backend and every object, \<open>refreshSchema\<close> with \<open>enhancedSchema\<close> set
  returns the same result and leaves the same structured schema and the same rendering
  as with \<open>enhancedSchema\<close> unset; the two objects afterwards differ in that flag only.
\<close>

theorem enhancedSchema_changes_nothing:
  "result (refreshSchema env (this\<lparr>enhancedSchema := True\<rparr>))
     = result (refreshSchema env (this\<lparr>enhancedSchema := False\<rparr>))
   \<and> structuredSchema (after (refreshSchema env (this\<lparr>enhancedSchema := True\<rparr>)))
     = structuredSchema (after (refreshSchema env (this\<lparr>enhancedSchema := False\<rparr>)))
   \<and> schema (after (refreshSchema env (this\<lparr>enhancedSchema := True\<rparr>)))
     = schema (after (refreshSchema env (this\<lparr>enhancedSchema := False\<rparr>)))
   \<and> after (refreshSchema env (this\<lparr>enhancedSchema := True\<rparr>))
     = (after (refreshSchema env (this\<lparr>enhancedSchema := False\<rparr>)))\<lparr>enhancedSchema := True\<rparr>"
proof (cases "graph this")
  case None
  then show ?thesis
    by (simp add: refreshSchema_unselected result_def after_def)
next
  case (Some g)
  then have a: "graph (this\<lparr>enhancedSchema := True\<rparr>) = Some g"
    and b: "graph (this\<lparr>enhancedSchema := False\<rparr>) = Some g"
    by simp_all
  show ?thesis
    unfolding refreshSchema_selected [OF a] refreshSchema_selected [OF b]
    by (simp add: result_def after_def formatSchema_def)
qed

subsection \<open>C10: close and the external driver\<close>

text \<open>
  C10. For every object obtained from a configuration, \<open>close\<close> never throws and changes
  no field. When the configuration supplied a driver, \<open>close\<close> makes no call at all on
  the outside world, so the driver's \<open>close\<close> is never invoked. When it did not, \<open>close\<close>
  invokes the \<open>close\<close> of the driver that \<open>initialize\<close> created, if there is one, and a
  failure of that call ends as a console warning.
\<close>

theorem close_spares_external_driver:
  assumes "reachable config this"
  shows "result (close env this) = Inr ()
     \<and> after (close env this) = this
     \<and> (cfg_driver config \<noteq> None \<longrightarrow> effects (close env this) = [])
     \<and> (cfg_driver config = None \<longrightarrow>
           (case driver this of
              None \<Rightarrow> effects (close env this) = []
            | Some d \<Rightarrow>
                effects (close env this) =
                  (case driver_close env d of
                     None \<Rightarrow> [DriverClose d]
                   | Some e \<Rightarrow>
                       [DriverClose d,
                        ConsoleWarn (''Warning: Error closing FalkorDB connection: ''
                                     @ message e)])))"
  using reachable_isExternalDriver [OF assms]
  by (auto simp: close_def close_try_def result_def after_def effects_def split: option.splits)

theorem close_spares_external_driver_witness:
  "reachable external_config external_object
   \<and> cfg_driver external_config = Some (Driver 7)
   \<and> driver external_object = Some (Driver 7)
   \<and> result (close empty_graph_backend external_object) = Inr ()
   \<and> after (close empty_graph_backend external_object) = external_object
   \<and> effects (close empty_graph_backend external_object) = []"
  using close_spares_external_driver [OF reachable_external_object, of empty_graph_backend]
    reachable_external_object
  by (simp add: external_config_def default_config_def external_object_def)

end
